theory Spec2Isabelle
  imports Main
begin

text \<open>
  A shallow embedding of the Segment-compatible ingestion server: the dispatcher of
  \<^verbatim>\<open>segment.go\<close> (\<^verbatim>\<open>handleBatch\<close>, \<^verbatim>\<open>handleEvent\<close>, \<^verbatim>\<open>send\<close>), its supervisor
  \<^verbatim>\<open>Run\<close>, the Firehose destination \<^verbatim>\<open>Delivery\<close> and the HTTP destination \<^verbatim>\<open>Forwarder\<close>.
  \<^verbatim>\<open>segment.go\<close> comes in two variants, which agree on the handlers and on \<^verbatim>\<open>send\<close>
  and differ in \<^verbatim>\<open>Run\<close>; both are modelled.

  Effects are explicit. Everything outside the dispatcher is a state \<open>'w\<close> that the
  calls take and return; a call that may not return has a \<open>result\<close>; the loops that
  wait in a \<^verbatim>\<open>select\<close> take the sequence of cases the \<^verbatim>\<open>select\<close> yields.
\<close>

section \<open>Data model (segment.go)\<close>

text \<open>
  Go values are modelled as follows. A \<^verbatim>\<open>time.Time\<close> is a natural number of clock
  ticks whose zero value \<^verbatim>\<open>time.Time{}\<close> is \<open>0\<close>; a \<^verbatim>\<open>time.Duration\<close> is an integer.
  A \<^verbatim>\<open>map[string]interface{}\<close> is an optional finite map: \<open>None\<close> is the nil map.
  An \<^verbatim>\<open>error\<close> is either built by \<^verbatim>\<open>fmt.Errorf\<close> (format string and arguments, kept
  unrendered) or one of the two errors of package context; a nil error is \<open>None\<close>.
\<close>

type_synonym time = nat
type_synonym duration = int

datatype any = Str string | Num int | Bool bool | Null

type_synonym attrs = "(string \<rightharpoonup> any) option"

datatype fmtarg = ArgStr string | ArgInt int

datatype error = Errorf string "fmtarg list" | Canceled | DeadlineExceeded

text \<open>\<^verbatim>\<open>SegmentMessage\<close>: the fields common to all messages.\<close>

record SegmentMessage =
  MessageId :: string
  Timestamp :: time
  SentAt :: time
  ProjectId :: string
  Type :: string
  Context :: attrs
  Properties :: attrs
  Traits :: attrs
  Integrations :: attrs
  AnonymousId :: string
  UserId :: string
  Event :: string
  Category :: string
  Name :: string

text \<open>
  \<^verbatim>\<open>SegmentBatch\<close>. Its first four fields carry the names of fields of
  \<^verbatim>\<open>SegmentMessage\<close> in the source; here they are prefixed with \<open>Batch\<close>.
\<close>

record SegmentBatch =
  BatchMessageId :: string
  BatchTimestamp :: time
  BatchSentAt :: time
  BatchContext :: attrs
  Messages :: "SegmentMessage list"

text \<open>
  \<^verbatim>\<open>SegmentEvent\<close> embeds a \<^verbatim>\<open>SegmentMessage\<close> beside the write key; the embedded
  struct is the field \<open>Message\<close>.
\<close>

record SegmentEvent =
  WriteKey :: string
  Message :: SegmentMessage

text \<open>
  A context is kept as the expression that built it; whether it is done at a given
  moment is for the callee to observe.
\<close>

datatype Ctx = Background | WithTimeout Ctx duration | WithCancel Ctx

text \<open>
  How a call ends: it returns an error value (\<open>None\<close> is nil), it blocks and never
  returns unless another goroutine acts, or it panics.
\<close>

datatype result = Returns "error option" | Blocks | Panics

text \<open>
  The \<^verbatim>\<open>Destination\<close> interface. An implementation is a pair of functions over the
  state \<open>'w\<close> of everything outside the dispatcher (destinations, clock, network).
\<close>

record 'w Destination =
  Process :: "Ctx \<Rightarrow> 'w \<Rightarrow> result \<times> 'w"
  Send :: "Ctx \<Rightarrow> SegmentEvent \<Rightarrow> 'w \<Rightarrow> result \<times> 'w"

text \<open>
  The library calls the dispatcher and the supervisor make: the clock, the UUID
  generator, the JSON and base64 decoders, the duration parser, sleeping, and the
  default back-off schedule of package backo (\<^verbatim>\<open>Duration(attempt)\<close>). They are
  parameters of the model. Logging is left out, but for \<^verbatim>\<open>Logger.Fatal\<close>, which ends
  the process.
\<close>

record 'w Lib =
  time_Now :: "'w \<Rightarrow> time \<times> 'w"
  uuid_NewRandom :: "'w \<Rightarrow> string \<times> 'w"
  json_DecodeBatch :: "string \<Rightarrow> string + SegmentBatch"
  json_DecodeEvent :: "string \<Rightarrow> SegmentEvent \<Rightarrow> string + SegmentEvent"
  base64_DecodeString :: "string \<Rightarrow> string + string"
  time_ParseDuration :: "string \<Rightarrow> string + duration"
  time_Sleep :: "duration \<Rightarrow> 'w \<Rightarrow> 'w"
  backo_DefaultBacko :: "nat \<Rightarrow> duration"

text \<open>
  \<^verbatim>\<open>Segment\<close>. The fields \<open>backo\<close> and \<open>backoRetry\<close> exist in the retrying variant of
  the file only; \<open>backo\<close> is the \<^verbatim>\<open>Duration\<close> method of the back-off object. Of
  \<^verbatim>\<open>NewSegment\<close> the registration of the two handlers with the router is left out.
\<close>

record 'w Segment =
  projectId :: "string \<Rightarrow> string"
  destinations :: "'w Destination list"
  backo :: "nat \<Rightarrow> duration"
  backoRetry :: int

definition NewSegment ::
  "'w Lib \<Rightarrow> (string \<Rightarrow> string) \<Rightarrow> 'w Destination list \<Rightarrow> 'w Segment" where
  "NewSegment lib pid dests =
     \<lparr>projectId = pid, destinations = dests,
      backo = backo_DefaultBacko lib, backoRetry = 10\<rparr>"

text \<open>The part of an HTTP request the handlers read, and the response they write.\<close>

record Request =
  Method :: string
  BasicAuth :: "(string \<times> string) option"
  Form :: "string \<rightharpoonup> string"
  Vars :: "string \<rightharpoonup> string"
  Body :: string

record Response =
  Status :: nat
  Payload :: string

definition FormValue :: "Request \<Rightarrow> string \<Rightarrow> string" where
  "FormValue r k = (case Form r k of None \<Rightarrow> [] | Some v \<Rightarrow> v)"

definition mux_Vars :: "Request \<Rightarrow> string \<Rightarrow> string" where
  "mux_Vars r k = (case Vars r k of None \<Rightarrow> [] | Some v \<Rightarrow> v)"

definition http_Error :: "string \<Rightarrow> nat \<Rightarrow> Response" where
  "http_Error msg code = \<lparr>Status = code, Payload = msg\<rparr>"

definition failure_json :: string where
  "failure_json = ''{ \"success\": false }''"

definition success_json :: string where
  "success_json = ''{ \"success\": true }''"

definition StatusOK :: nat where "StatusOK = 200"
definition StatusBadRequest :: nat where "StatusBadRequest = 400"
definition StatusUnauthorized :: nat where "StatusUnauthorized = 401"
definition StatusInternalServerError :: nat where "StatusInternalServerError = 500"

section \<open>The dispatcher (segment.go)\<close>

definition contextTimeout :: "'w Lib \<Rightarrow> Request \<Rightarrow> Ctx" where
  "contextTimeout lib r =
     (case time_ParseDuration lib (FormValue r ''timeout'') of
        Inr timeout \<Rightarrow> WithTimeout Background timeout
      | Inl err \<Rightarrow> WithCancel Background)"

text \<open>
  The loop of \<^verbatim>\<open>send\<close> over \<^verbatim>\<open>s.destinations\<close>. Beside the result and the state it
  returns the calls of \<^verbatim>\<open>Send\<close> it made, in order: the position of the destination in
  the list and the event passed. A call that blocks or panics ends the loop as well,
  since the loop never gets control back.
\<close>

type_synonym call = "nat \<times> SegmentEvent"

fun send_dests ::
  "nat \<Rightarrow> 'w Destination list \<Rightarrow> Ctx \<Rightarrow> SegmentEvent \<Rightarrow> 'w \<Rightarrow> result \<times> 'w \<times> call list" where
  "send_dests k [] ctx m w = (Returns None, w, [])"
| "send_dests k (dest # rest) ctx m w =
     (case Send dest ctx m w of
        (Returns None, w') \<Rightarrow>
          (case send_dests (Suc k) rest ctx m w' of
             (r, w'', calls) \<Rightarrow> (r, w'', (k, m) # calls))
      | (r, w') \<Rightarrow> (r, w', [(k, m)]))"

text \<open>
  \<^verbatim>\<open>send\<close>, in two parts: the assignments to the event before the loop
  (\<open>send_prepare\<close>, which reads the clock once or twice and the UUID generator at
  most once), and the loop.
\<close>

definition send_prepare :: "'w Lib \<Rightarrow> SegmentEvent \<Rightarrow> 'w \<Rightarrow> SegmentEvent \<times> 'w" where
  "send_prepare lib m w =
     (let (m1, w1) =
            (if Timestamp (Message m) = 0
             then (case time_Now lib w of
                     (t, w') \<Rightarrow> (m\<lparr>Message := (Message m)\<lparr>Timestamp := t\<rparr>\<rparr>, w'))
             else (m, w));
          (t2, w2) = time_Now lib w1;
          m2 = m1\<lparr>Message := (Message m1)\<lparr>SentAt := t2\<rparr>\<rparr>
      in if MessageId (Message m2) = []
         then (case uuid_NewRandom lib w2 of
                 (u, w') \<Rightarrow> (m2\<lparr>Message := (Message m2)\<lparr>MessageId := u\<rparr>\<rparr>, w'))
         else (m2, w2))"

definition send ::
  "'w Segment \<Rightarrow> 'w Lib \<Rightarrow> Ctx \<Rightarrow> SegmentEvent \<Rightarrow> 'w \<Rightarrow> result \<times> 'w \<times> call list" where
  "send s lib ctx m w =
     (case send_prepare lib m w of
        (m', w0) \<Rightarrow> send_dests 0 (destinations s) ctx m' w0)"

text \<open>
  The loop of \<^verbatim>\<open>handleBatch\<close> over \<^verbatim>\<open>batch.Messages\<close>: it builds the event, sets the
  project id and the context of the batch, and sends; the first send that does not
  return nil ends the loop.
\<close>

fun handleBatch_loop ::
  "'w Segment \<Rightarrow> 'w Lib \<Rightarrow> Ctx \<Rightarrow> string \<Rightarrow> string \<Rightarrow> attrs \<Rightarrow> SegmentMessage list \<Rightarrow> 'w
     \<Rightarrow> result \<times> 'w \<times> call list" where
  "handleBatch_loop s lib ctx writeKey pid bctx [] w = (Returns None, w, [])"
| "handleBatch_loop s lib ctx writeKey pid bctx (m # ms) w =
     (let event = \<lparr>WriteKey = writeKey, Message = m\<rparr>;
          event = event\<lparr>Message := (Message event)\<lparr>ProjectId := pid\<rparr>\<rparr>;
          event = event\<lparr>Message := (Message event)\<lparr>Context := bctx\<rparr>\<rparr>
      in case send s lib ctx event w of
           (Returns None, w', calls) \<Rightarrow>
             (case handleBatch_loop s lib ctx writeKey pid bctx ms w' of
                (r, w'', calls') \<Rightarrow> (r, w'', calls @ calls'))
         | (r, w', calls) \<Rightarrow> (r, w', calls))"

text \<open>
  What a handler has written when a send ended with \<open>r\<close>: the failure with status 500
  for an error, the success body for nil, nothing when the send never returned.
\<close>

definition respond :: "result \<Rightarrow> Response option" where
  "respond r =
     (case r of
        Returns (Some err) \<Rightarrow> Some (http_Error failure_json StatusInternalServerError)
      | Returns None \<Rightarrow> Some \<lparr>Status = StatusOK, Payload = success_json\<rparr>
      | Blocks \<Rightarrow> None
      | Panics \<Rightarrow> None)"

definition handleBatch ::
  "'w Segment \<Rightarrow> 'w Lib \<Rightarrow> Request \<Rightarrow> 'w \<Rightarrow> Response option \<times> 'w \<times> call list" where
  "handleBatch s lib r w =
     (case json_DecodeBatch lib (Body r) of
        Inl err \<Rightarrow> (Some (http_Error failure_json StatusBadRequest), w, [])
      | Inr batch \<Rightarrow>
          (case BasicAuth r of
             None \<Rightarrow> (Some (http_Error failure_json StatusUnauthorized), w, [])
           | Some (writeKey, password) \<Rightarrow>
               (let pid = projectId s writeKey in
                if pid = [] then (Some (http_Error failure_json StatusUnauthorized), w, [])
                else (let ctx = contextTimeout lib r in
                      case handleBatch_loop s lib ctx writeKey pid (BatchContext batch)
                             (Messages batch) w of
                        (res, w', calls) \<Rightarrow> (respond res, w', calls)))))"

text \<open>
  \<^verbatim>\<open>handleEvent\<close>, in two parts: reading the event from the request (the payload of a
  GET is the base64 form value \<^verbatim>\<open>data\<close>; the decoder fills an event that starts with
  the write key of the basic authorisation and the type of the URL), and the rest.
\<close>

definition handleEvent_decode :: "'w Lib \<Rightarrow> Request \<Rightarrow> Response + SegmentEvent" where
  "handleEvent_decode lib r =
     (case (if Method r = ''GET''
            then (case base64_DecodeString lib (FormValue r ''data'') of
                    Inl err \<Rightarrow> Inl (http_Error failure_json StatusBadRequest)
                  | Inr data \<Rightarrow> Inr data)
            else Inr (Body r)) of
        Inl resp \<Rightarrow> Inl resp
      | Inr body \<Rightarrow>
          (let writeKey = (case BasicAuth r of None \<Rightarrow> [] | Some (u, p) \<Rightarrow> u);
               event = \<lparr>WriteKey = writeKey,
                        Message = \<lparr>MessageId = [], Timestamp = 0, SentAt = 0, ProjectId = [],
                          Type = mux_Vars r ''event'', Context = None, Properties = None,
                          Traits = None, Integrations = None, AnonymousId = [], UserId = [],
                          Event = [], Category = [], Name = []\<rparr>\<rparr>
           in case json_DecodeEvent lib body event of
                Inl err \<Rightarrow> Inl (http_Error failure_json StatusBadRequest)
              | Inr event' \<Rightarrow> Inr event'))"

definition handleEvent ::
  "'w Segment \<Rightarrow> 'w Lib \<Rightarrow> Request \<Rightarrow> 'w \<Rightarrow> Response option \<times> 'w \<times> call list" where
  "handleEvent s lib r w =
     (case handleEvent_decode lib r of
        Inl resp \<Rightarrow> (Some resp, w, [])
      | Inr event \<Rightarrow>
          (let event = event\<lparr>Message := (Message event)
                         \<lparr>ProjectId := projectId s (WriteKey event)\<rparr>\<rparr>
           in if ProjectId (Message event) = []
              then (Some (http_Error failure_json StatusBadRequest), w, [])
              else (let ctx = contextTimeout lib r in
                    case send s lib ctx event w of
                      (res, w', calls) \<Rightarrow> (respond res, w', calls))))"

section \<open>The supervisor (segment.go, \<^verbatim>\<open>Run\<close>)\<close>

text \<open>
  \<^verbatim>\<open>Run\<close> starts one goroutine for each destination; the model is the body of that
  goroutine. The file holds two variants of \<^verbatim>\<open>Run\<close>.

  In the first the goroutine calls \<^verbatim>\<open>Process\<close> in a loop
  \<^verbatim>\<open>for i := 0; i < s.backoRetry; i++\<close>, leaves the loop at the first nil, and after
  an error sleeps \<^verbatim>\<open>s.backo.Duration(i)\<close>; after the loop a non-nil \<^verbatim>\<open>err\<close> goes to
  \<^verbatim>\<open>s.Logger.Fatal\<close>, which logs it and exits the process. \<open>Run_loop\<close> is the loop: it
  takes the counter \<open>i\<close> and the variable \<open>err\<close>, and returns how the loop ended (the
  final \<open>err\<close>, or a call of \<^verbatim>\<open>Process\<close> that did not return), the state, the sleeps
  taken and the number of calls of \<^verbatim>\<open>Process\<close>.
\<close>

function Run_loop ::
  "'w Segment \<Rightarrow> 'w Lib \<Rightarrow> 'w Destination \<Rightarrow> Ctx \<Rightarrow> nat \<Rightarrow> error option \<Rightarrow> 'w
     \<Rightarrow> result \<times> 'w \<times> duration list \<times> nat" where
  "Run_loop s lib dest ctx i err w =
     (if int i < backoRetry s
      then (case Process dest ctx w of
              (Returns None, w') \<Rightarrow> (Returns None, w', [], 1)
            | (Returns (Some e), w') \<Rightarrow>
                (case Run_loop s lib dest ctx (Suc i) (Some e) (time_Sleep lib (backo s i) w') of
                   (r, w'', sleeps, calls) \<Rightarrow> (r, w'', backo s i # sleeps, Suc calls))
            | (r, w') \<Rightarrow> (r, w', [], 1))
      else (Returns err, w, [], 0))"
  by pat_completeness auto
termination
  by (relation "measure (\<lambda>(s, lib, dest, ctx, i, err, w). nat (backoRetry s - int i))") auto

declare Run_loop.simps [simp del]

datatype task_end = GoroutineEnds | LoggerFatal error | ProcessBlocks | ProcessPanics

definition Run_goroutine ::
  "'w Segment \<Rightarrow> 'w Lib \<Rightarrow> 'w Destination \<Rightarrow> Ctx \<Rightarrow> 'w
     \<Rightarrow> task_end \<times> 'w \<times> duration list \<times> nat" where
  "Run_goroutine s lib dest ctx w =
     (case Run_loop s lib dest ctx 0 None w of
        (Returns (Some err), w', sleeps, calls) \<Rightarrow> (LoggerFatal err, w', sleeps, calls)
      | (Returns None, w', sleeps, calls) \<Rightarrow> (GoroutineEnds, w', sleeps, calls)
      | (Blocks, w', sleeps, calls) \<Rightarrow> (ProcessBlocks, w', sleeps, calls)
      | (Panics, w', sleeps, calls) \<Rightarrow> (ProcessPanics, w', sleeps, calls))"

text \<open>
  In the second variant the goroutine is \<^verbatim>\<open>done <- dest.Process(ctx)\<close>: one call, whose
  result is sent on the channel \<^verbatim>\<open>done\<close> that \<^verbatim>\<open>Run\<close> returns (its capacity is the
  number of destinations, so the send does not wait). The model returns what was
  sent on \<^verbatim>\<open>done\<close>, if anything, the state and the number of calls of \<^verbatim>\<open>Process\<close>.
\<close>

definition Run_done_goroutine ::
  "'w Destination \<Rightarrow> Ctx \<Rightarrow> 'w \<Rightarrow> error option option \<times> 'w \<times> nat" where
  "Run_done_goroutine dest ctx w =
     (case Process dest ctx w of
        (Returns err, w') \<Rightarrow> (Some err, w', 1)
      | (r, w') \<Rightarrow> (None, w', 1))"

section \<open>Channels\<close>

text \<open>
  A Go channel, as far as the two destinations use it: a capacity fixed by \<^verbatim>\<open>make\<close>,
  the values buffered, and the state of the one goroutine that receives from it (the
  run loop of the destination): it is elsewhere, it is blocked in a receive, or it
  has been handed a value that it has not yet taken up.
\<close>

datatype 'm receiver = Elsewhere | Waiting | Handed 'm

record 'm chan =
  cap :: nat
  buf :: "'m list"
  receiver :: "'m receiver"

definition make_chan :: "nat \<Rightarrow> 'm chan" where
  "make_chan n = \<lparr>cap = n, buf = [], receiver = Elsewhere\<rparr>"

text \<open>
  A send can proceed at once when the receiver is blocked in a receive, which hands
  the value over, or when the buffer has room.
\<close>

definition chan_ready :: "'m chan \<Rightarrow> bool" where
  "chan_ready ch = (receiver ch = Waiting \<or> length (buf ch) < cap ch)"

definition chan_put :: "'m chan \<Rightarrow> 'm \<Rightarrow> 'm chan" where
  "chan_put ch m =
     (if receiver ch = Waiting then ch\<lparr>receiver := Handed m\<rparr>
      else ch\<lparr>buf := buf ch @ [m]\<rparr>)"

text \<open>
  The receiver arrives at its receive: it takes the oldest buffered value, or blocks.
\<close>

definition chan_recv :: "'m chan \<Rightarrow> 'm option \<times> 'm chan" where
  "chan_recv ch =
     (case receiver ch of
        Handed m \<Rightarrow> (Some m, ch\<lparr>receiver := Elsewhere\<rparr>)
      | _ \<Rightarrow>
         (case buf ch of
            m # ms \<Rightarrow> (Some m, ch\<lparr>buf := ms, receiver := Elsewhere\<rparr>)
          | [] \<Rightarrow> (None, ch\<lparr>receiver := Waiting\<rparr>)))"

section \<open>The batching destination (\<^verbatim>\<open>Delivery\<close>)\<close>

text \<open>
  The Firehose client: its endpoint and the three calls, each over the state of the
  outside world. An error is its message; \<^verbatim>\<open>PutRecordBatch\<close> answers with the
  \<^verbatim>\<open>FailedPutCount\<close>. A \<^verbatim>\<open>*firehose.Record\<close> is its data, \<open>None\<close> for a nil pointer.
\<close>

type_synonym record_ptr = "string option"


record 'w Firehose =
  Endpoint :: string
  DescribeDeliveryStream :: "string \<Rightarrow> 'w \<Rightarrow> (string + string) \<times> 'w"
  CreateDeliveryStream :: "string \<Rightarrow> 'w \<Rightarrow> (string + string) \<times> 'w"
  PutRecordBatch :: "string \<Rightarrow> record_ptr list \<Rightarrow> 'w \<Rightarrow> (string + int) \<times> 'w"

record DeliveryConfig =
  StreamEndpoint :: string
  StreamRegion :: string
  StreamName :: string
  BatchSize :: int
  FlushInterval :: duration

text \<open>
  \<^verbatim>\<open>Delivery\<close>. The field \<^verbatim>\<open>size\<close> is \<open>size_d\<close> here; \<open>messages\<close> is \<open>None\<close> while the
  channel is nil.
\<close>

record ('w, 'm) Delivery =
  fh :: "'w Firehose"
  streamName :: string
  size_d :: int
  flushInterval :: duration
  messages :: "'m chan option"

definition Second :: duration where
  "Second = 1000000000"

text \<open>
  \<^verbatim>\<open>NewDelivery\<close>; \<open>None\<close> is \<^verbatim>\<open>log.Fatal\<close>. The session and the client that
  \<^verbatim>\<open>firehose.New\<close> builds from the configuration are the parameter \<open>firehose_New\<close>.
\<close>

definition NewDelivery ::
  "(DeliveryConfig \<Rightarrow> 'w Firehose) \<Rightarrow> DeliveryConfig \<Rightarrow> ('w, 'm) Delivery option" where
  "NewDelivery firehose_New config =
     (if StreamRegion config = [] \<or> StreamName config = [] then None
      else
        (let config = (if BatchSize config \<le> 0 \<or> BatchSize config > 500
                       then config\<lparr>BatchSize := 500\<rparr> else config);
             config = (if FlushInterval config = 0
                       then config\<lparr>FlushInterval := Second * 30\<rparr> else config)
         in Some \<lparr>fh = firehose_New config, streamName = StreamName config,
                   size_d = BatchSize config, flushInterval = FlushInterval config,
                   messages = None\<rparr>))"

fun HasPrefix :: "string \<Rightarrow> string \<Rightarrow> bool" where
  "HasPrefix s [] = True"
| "HasPrefix [] (p # ps) = False"
| "HasPrefix (c # cs) (p # ps) = (c = p \<and> HasPrefix cs ps)"

fun Contains :: "string \<Rightarrow> string \<Rightarrow> bool" where
  "Contains [] sub = (sub = [])"
| "Contains (c # cs) sub = (HasPrefix (c # cs) sub \<or> Contains cs sub)"

definition Connect :: "('w, 'm) Delivery \<Rightarrow> 'w \<Rightarrow> error option \<times> 'w" where
  "Connect d w =
     (case DescribeDeliveryStream (fh d) (streamName d) w of
        (Inr arn, w1) \<Rightarrow> (None, w1)
      | (Inl err, w1) \<Rightarrow>
          (if Contains err ''ResourceNotFoundException''
           then (case CreateDeliveryStream (fh d) (streamName d) w1 of
                   (Inr arn, w2) \<Rightarrow> (None, w2)
                 | (Inl err', w2) \<Rightarrow>
                     (Some (Errorf ''Firehose stream error -- %v'' [ArgStr err']), w2))
           else (Some (Errorf ''Firehose stream error -- %v'' [ArgStr err]), w1)))"

text \<open>
  What \<^verbatim>\<open>Process\<close> acts on beside its buffer: the outside world, the two counters of
  the stream, and the batches handed to \<^verbatim>\<open>PutRecordBatch\<close> so far, in order. A counter
  of the metrics library panics when it is asked to add a negative value. The latency
  summary is left out.
\<close>

record 'w pstate =
  world :: 'w
  deliverySuccessCounter :: int
  deliveryFailureCounter :: int
  puts :: "record_ptr list list"

definition counter_Add :: "int \<Rightarrow> int \<Rightarrow> int option" where
  "counter_Add c v = (if v < 0 then None else Some (c + v))"

text \<open>The closure \<^verbatim>\<open>send\<close> of \<^verbatim>\<open>Process\<close>, over the array \<open>records\<close>.\<close>

definition Process_send ::
  "('w, 'm) Delivery \<Rightarrow> record_ptr list \<Rightarrow> nat \<Rightarrow> 'w pstate \<Rightarrow> result \<times> 'w pstate" where
  "Process_send d records i st =
     (if i = 0 then (Returns None, st)
      else
        (case PutRecordBatch (fh d) (streamName d) (take i records) (world st) of
           (Inl err, w') \<Rightarrow>
             (let st = st\<lparr>world := w', puts := puts st @ [take i records]\<rparr> in
              case counter_Add (deliveryFailureCounter st) (int i) of
                None \<Rightarrow> (Panics, st)
              | Some c \<Rightarrow>
                  (Returns (Some (Errorf ''Error sending to firehose -- %v'' [ArgStr err])),
                   st\<lparr>deliveryFailureCounter := c\<rparr>))
         | (Inr failed, w') \<Rightarrow>
             (let st = st\<lparr>world := w', puts := puts st @ [take i records]\<rparr> in
              case counter_Add (deliveryFailureCounter st) failed of
                None \<Rightarrow> (Panics, st)
              | Some c \<Rightarrow>
                  (let st = st\<lparr>deliveryFailureCounter := c\<rparr> in
                   case counter_Add (deliverySuccessCounter st) (int i - failed) of
                     None \<Rightarrow> (Panics, st)
                   | Some c' \<Rightarrow> (Returns None, st\<lparr>deliverySuccessCounter := c'\<rparr>)))))"

text \<open>
  What the \<^verbatim>\<open>select\<close> of the loop took: a message received from \<^verbatim>\<open>d.messages\<close>, the
  context being done, or the timer \<^verbatim>\<open>time.After(d.flushInterval)\<close>.
\<close>

datatype 'm selected = RecvMessage 'm | CtxDone | TimeAfter

text \<open>
  One turn of the \<^verbatim>\<open>for\<close> loop, for the case the \<^verbatim>\<open>select\<close> took: \<open>Inl\<close> when \<^verbatim>\<open>Process\<close>
  ends there, \<open>Inr\<close> with the array and the index \<open>i\<close> when the loop goes on. Writing
  \<^verbatim>\<open>records[i]\<close> outside the array panics. After the \<^verbatim>\<open>select\<close>, the batch is sent and \<open>i\<close>
  reset when \<^verbatim>\<open>i == d.size || flush\<close>; the error of that \<^verbatim>\<open>send\<close> is dropped.
\<close>

definition Process_step ::
  "('m \<Rightarrow> string + string) \<Rightarrow> ('w, 'm) Delivery \<Rightarrow> 'm selected \<Rightarrow> record_ptr list \<Rightarrow> nat
     \<Rightarrow> 'w pstate \<Rightarrow> (result + record_ptr list \<times> nat) \<times> 'w pstate" where
  "Process_step json_Marshal d ev records i st =
     (case (case ev of
              RecvMessage message \<Rightarrow>
                (case json_Marshal message of
                   Inl err \<Rightarrow> Inl (Returns (Some (Errorf ''Marshal error -- %v'' [ArgStr err])), st)
                 | Inr data \<Rightarrow>
                     if i < length records
                     then Inr (records[i := Some (data @ [CHR 0x0A])], Suc i, False)
                     else Inl (Panics, st))
            | CtxDone \<Rightarrow> Inl (Process_send d records i st)
            | TimeAfter \<Rightarrow> Inr (records, i, 0 < i)) of
        Inl (r, st') \<Rightarrow> (Inl r, st')
      | Inr (records, i, flush) \<Rightarrow>
          (if int i = size_d d \<or> flush
           then (case Process_send d records i st of
                   (Panics, st') \<Rightarrow> (Inl Panics, st')
                 | (r, st') \<Rightarrow> (Inr (records, 0), st'))
           else (Inr (records, i), st)))"

text \<open>
  The loop, over the cases its \<^verbatim>\<open>select\<close> takes one after the other. When they run
  out the loop is blocked in the \<^verbatim>\<open>select\<close>. The array and the index are returned
  with the result.
\<close>

fun Process_loop ::
  "('m \<Rightarrow> string + string) \<Rightarrow> ('w, 'm) Delivery \<Rightarrow> 'm selected list \<Rightarrow> record_ptr list \<Rightarrow> nat
     \<Rightarrow> 'w pstate \<Rightarrow> result \<times> record_ptr list \<times> nat \<times> 'w pstate" where
  "Process_loop json_Marshal d [] records i st = (Blocks, records, i, st)"
| "Process_loop json_Marshal d (ev # evs) records i st =
     (case Process_step json_Marshal d ev records i st of
        (Inl r, st') \<Rightarrow> (r, records, i, st')
      | (Inr (records', i'), st') \<Rightarrow> Process_loop json_Marshal d evs records' i' st')"

text \<open>
  \<^verbatim>\<open>Process\<close>: connect, make the channel and the array (a negative length panics),
  and loop.
\<close>

definition Delivery_Process ::
  "('m \<Rightarrow> string + string) \<Rightarrow> ('w, 'm) Delivery \<Rightarrow> 'm selected list \<Rightarrow> 'w pstate
     \<Rightarrow> result \<times> ('w, 'm) Delivery \<times> 'w pstate" where
  "Delivery_Process json_Marshal d evs st =
     (case Connect d (world st) of
        (Some err, w') \<Rightarrow> (Returns (Some err), d, st\<lparr>world := w'\<rparr>)
      | (None, w') \<Rightarrow>
          (if size_d d < 0 then (Panics, d, st\<lparr>world := w'\<rparr>)
           else
             (let d = d\<lparr>messages := Some (make_chan (nat (size_d d * 2)))\<rparr>;
                  records = replicate (nat (size_d d)) None
              in case Process_loop json_Marshal d evs records 0 (st\<lparr>world := w'\<rparr>) of
                   (r, records', i, st') \<Rightarrow> (r, d, st'))))"

text \<open>
  \<^verbatim>\<open>Delivery.Send\<close>. With a nil channel it returns the error at once. Otherwise the
  \<^verbatim>\<open>select\<close> waits for the send on the channel or for the context: \<open>ctx_Err\<close> is what
  \<^verbatim>\<open>ctx.Err()\<close> yields at that moment (\<^verbatim>\<open>ctx.Done()\<close> is ready when it is not nil), and
  \<open>pick\<close> is the choice of the \<^verbatim>\<open>select\<close> when both are ready.
\<close>

definition Delivery_Send ::
  "(Ctx \<Rightarrow> error option) \<Rightarrow> bool \<Rightarrow> ('w, 'm) Delivery \<Rightarrow> Ctx \<Rightarrow> 'm
     \<Rightarrow> result \<times> ('w, 'm) Delivery" where
  "Delivery_Send ctx_Err pick d ctx message =
     (case messages d of
        None \<Rightarrow>
          (Returns (Some (Errorf ''Delivery destination not ready, check stream %q exists at %s''
                      [ArgStr (streamName d), ArgStr (Endpoint (fh d))])), d)
      | Some ch \<Rightarrow>
          (case (chan_ready ch, ctx_Err ctx) of
             (True, None) \<Rightarrow> (Returns None, d\<lparr>messages := Some (chan_put ch message)\<rparr>)
           | (False, Some err) \<Rightarrow> (Returns (Some err), d)
           | (True, Some err) \<Rightarrow>
               (if pick then (Returns None, d\<lparr>messages := Some (chan_put ch message)\<rparr>)
                else (Returns (Some err), d))
           | (False, None) \<Rightarrow> (Blocks, d)))"


section \<open>The dropping destination (\<^verbatim>\<open>Forwarder\<close>)\<close>

text \<open>
  \<^verbatim>\<open>Forwarder\<close>; its field \<^verbatim>\<open>messages\<close> is \<open>messages_f\<close> here. \<^verbatim>\<open>NewForwarder\<close> makes the
  channel with \<^verbatim>\<open>make(chan interface{})\<close>, which has no buffer; \<open>None\<close> is \<^verbatim>\<open>log.Fatalf\<close>.
\<close>

record 'm Forwarder =
  endpoint :: string
  messages_f :: "'m chan"

definition NewForwarder :: "string \<Rightarrow> 'm Forwarder option" where
  "NewForwarder ep =
     (if \<not> HasPrefix ep ''http'' then None
      else Some \<lparr>endpoint = ep, messages_f = make_chan 0\<rparr>)"

text \<open>
  \<^verbatim>\<open>Forwarder.Send\<close>: a \<^verbatim>\<open>select\<close> with the send and a \<^verbatim>\<open>default\<close> that adds one to
  \<^verbatim>\<open>forwarderSkipCounter\<close> of the endpoint, whose value is \<open>skipped\<close>.
\<close>

definition Forwarder_Send ::
  "'m Forwarder \<Rightarrow> Ctx \<Rightarrow> 'm \<Rightarrow> nat \<Rightarrow> result \<times> 'm Forwarder \<times> nat" where
  "Forwarder_Send f ctx message skipped =
     (if chan_ready (messages_f f)
      then (Returns None, f\<lparr>messages_f := chan_put (messages_f f) message\<rparr>, skipped)
      else (Returns None, f, skipped + 1))"

section \<open>An example configuration\<close>

text \<open>
  The state is a clock, in nanoseconds, and the log of the destinations that were
  called. Sleeping moves the clock; the back-off schedule of the example doubles from
  100 milliseconds up to 10 seconds.
\<close>

definition Millisecond :: duration where
  "Millisecond = 1000000"

type_synonym world = "nat \<times> nat list"

definition ex_message :: SegmentMessage where
  "ex_message =
     \<lparr>MessageId = [], Timestamp = 0, SentAt = 7, ProjectId = [], Type = ''track'',
      Context = Some [''ip'' \<mapsto> Str ''10.0.0.1''], Properties = None, Traits = None,
      Integrations = None, AnonymousId = [], UserId = ''u1'', Event = ''Signed Up'',
      Category = [], Name = []\<rparr>"

definition ex_event :: SegmentEvent where
  "ex_event = \<lparr>WriteKey = ''key'', Message = ex_message\<rparr>"

definition ex_batch :: SegmentBatch where
  "ex_batch =
     \<lparr>BatchMessageId = [], BatchTimestamp = 0, BatchSentAt = 0,
      BatchContext = Some [''app'' \<mapsto> Str ''web''],
      Messages = [ex_message, ex_message\<lparr>UserId := ''u2'', Context := None\<rparr>]\<rparr>"

definition ex_lib :: "world Lib" where
  "ex_lib =
     \<lparr>time_Now = (\<lambda>(c, l). (c, (Suc c, l))),
      uuid_NewRandom = (\<lambda>w. (''uuid'', w)),
      json_DecodeBatch =
        (\<lambda>body. if body = ''nil'' then Inr (ex_batch\<lparr>BatchContext := None\<rparr>)
                 else Inr ex_batch),
      json_DecodeEvent = (\<lambda>body ev. Inr (ev\<lparr>Message := ex_message\<lparr>Type := Type (Message ev)\<rparr>\<rparr>)),
      base64_DecodeString = (\<lambda>s. Inr s),
      time_ParseDuration = (\<lambda>s. Inl ''invalid duration''),
      time_Sleep = (\<lambda>d (c, l). (c + nat d, l)),
      backo_DefaultBacko = (\<lambda>n. min (100 * Millisecond * 2 ^ n) (10 * Second))\<rparr>"

definition logging_dest :: "nat \<Rightarrow> result \<Rightarrow> world Destination" where
  "logging_dest n r =
     \<lparr>Process = (\<lambda>ctx (c, l). (r, (c, l @ [n]))),
      Send = (\<lambda>ctx m (c, l). (r, (c, l @ [n])))\<rparr>"

definition ex_err :: error where
  "ex_err = Errorf ''sink %d failed'' [ArgInt 1]"

definition flaky_dest :: "nat \<Rightarrow> nat \<Rightarrow> world Destination" where
  "flaky_dest n failures =
     \<lparr>Process = (\<lambda>ctx (c, l). (if length l < failures then Returns (Some ex_err)
                               else Returns None, (c, l @ [n]))),
      Send = (\<lambda>ctx m (c, l). (Returns None, (c, l @ [n])))\<rparr>"

definition ex_segment :: "world Segment" where
  "ex_segment =
     NewSegment ex_lib (\<lambda>k. if k = ''key'' then ''project'' else [])
       [logging_dest 0 (Returns None), logging_dest 1 (Returns (Some ex_err)),
        logging_dest 2 (Returns None)]"

definition ex_request :: Request where
  "ex_request =
     \<lparr>Method = ''POST'', BasicAuth = Some (''key'', []), Form = Map.empty,
      Vars = [''event'' \<mapsto> ''track''], Body = ''{}''\<rparr>"

definition ex_sent :: SegmentEvent where
  "ex_sent = \<lparr>WriteKey = ''key'',
      Message = ex_message\<lparr>Timestamp := 100, SentAt := 101, MessageId := ''uuid''\<rparr>\<rparr>"

definition ex_segment_ok :: "world Segment" where
  "ex_segment_ok =
     NewSegment ex_lib (\<lambda>k. if k = ''key'' then ''project'' else [])
       [logging_dest 0 (Returns None), logging_dest 1 (Returns None)]"

definition ex_dispatched :: "string \<Rightarrow> time \<Rightarrow> attrs \<Rightarrow> SegmentEvent" where
  "ex_dispatched uid t c =
     \<lparr>WriteKey = ''key'',
      Message = ex_message\<lparr>MessageId := ''uuid'', Timestamp := t, SentAt := Suc t,
                  ProjectId := ''project'', UserId := uid, Context := c\<rparr>\<rparr>"

definition ex_firehose :: "world Firehose" where
  "ex_firehose =
     \<lparr>Endpoint = ''https://firehose.us-west-2.amazonaws.com'',
      DescribeDeliveryStream = (\<lambda>name w. (Inr ''arn:aws:firehose:events'', w)),
      CreateDeliveryStream = (\<lambda>name w. (Inl ''ResourceInUseException'', w)),
      PutRecordBatch = (\<lambda>name rs (c, l). (Inr 0, (c, l @ [length rs])))\<rparr>"

definition ex_config :: DeliveryConfig where
  "ex_config =
     \<lparr>StreamEndpoint = [], StreamRegion = ''us-west-2'', StreamName = ''events'',
      BatchSize = 3, FlushInterval = 0\<rparr>"

definition ex_delivery :: "(world, SegmentEvent) Delivery" where
  "ex_delivery =
     \<lparr>fh = ex_firehose, streamName = ''events'', size_d = 3, flushInterval = 30000000000,
      messages = None\<rparr>"

definition ex_user :: "string \<Rightarrow> SegmentEvent" where
  "ex_user u = \<lparr>WriteKey = ''key'', Message = ex_message\<lparr>UserId := u\<rparr>\<rparr>"

definition ex_marshal :: "SegmentEvent \<Rightarrow> string + string" where
  "ex_marshal e =
     (if UserId (Message e) = [] then Inl ''json: unsupported value''
      else Inr (UserId (Message e)))"

definition ex_pstate :: "world pstate" where
  "ex_pstate =
     \<lparr>world = (100, []), deliverySuccessCounter = 0, deliveryFailureCounter = 0, puts = []\<rparr>"

definition ex_fixed_lib :: "'w Lib" where
  "ex_fixed_lib =
     \<lparr>time_Now = (\<lambda>w. (100, w)),
      uuid_NewRandom = (\<lambda>w. (''uuid'', w)),
      json_DecodeBatch = (\<lambda>body. Inl ''unexpected end of JSON input''),
      json_DecodeEvent = (\<lambda>body ev. Inr ev),
      base64_DecodeString = (\<lambda>s. Inr s),
      time_ParseDuration = (\<lambda>s. Inl ''invalid duration''),
      time_Sleep = (\<lambda>d w. w),
      backo_DefaultBacko = (\<lambda>n. min (100 * Millisecond * 2 ^ n) (10 * Second))\<rparr>"

definition ex_delivery_dest :: "(world, SegmentEvent) Delivery Destination" where
  "ex_delivery_dest =
     \<lparr>Process = (\<lambda>ctx d. case Delivery_Process ex_marshal d [] ex_pstate of
                            (r, d', st) \<Rightarrow> (r, d')),
      Send = (\<lambda>ctx m d. Delivery_Send (\<lambda>c. None) True d ctx m)\<rparr>"

definition ex_other_dest :: "(world, SegmentEvent) Delivery Destination" where
  "ex_other_dest =
     \<lparr>Process = (\<lambda>ctx d. (Returns None, d)),
      Send = (\<lambda>ctx m d. (Returns None, d\<lparr>streamName := ''touched''\<rparr>))\<rparr>"

definition ex_not_ready :: error where
  "ex_not_ready =
     Errorf ''Delivery destination not ready, check stream %q exists at %s''
       [ArgStr ''events'', ArgStr ''https://firehose.us-west-2.amazonaws.com'']"

definition ex_forwarder :: "SegmentEvent Forwarder" where
  "ex_forwarder = \<lparr>endpoint = ''http://collector'', messages_f = make_chan 0\<rparr>"

definition ex_forwarder_waiting :: "SegmentEvent Forwarder" where
  "ex_forwarder_waiting =
     ex_forwarder\<lparr>messages_f := snd (chan_recv (messages_f ex_forwarder))\<rparr>"

section \<open>Properties of the dispatcher\<close>

text \<open>
  The calls the loop of \<^verbatim>\<open>send\<close> makes are those of consecutive positions, all with
  the same event; the loop reaches the end of the list when it returns nil, and stops
  at the first destination that returns an error.
\<close>

lemma send_dests_calls:
  "send_dests k ds ctx m w = (r, w', calls) \<Longrightarrow>
     calls = map (\<lambda>i. (i, m)) [k..<k + length calls] \<and> length calls \<le> length ds \<and>
     (r = Returns None \<longrightarrow> length calls = length ds)"
proof (induction ds arbitrary: k w r w' calls)
  case Nil
  then show ?case by simp
next
  case (Cons d ds)
  obtain r1 w1 where s1: "Send d ctx m w = (r1, w1)" by (cases "Send d ctx m w")
  show ?case
  proof (cases "r1 = Returns None")
    case True
    obtain r2 w2 c2 where s2: "send_dests (Suc k) ds ctx m w1 = (r2, w2, c2)"
      by (cases "send_dests (Suc k) ds ctx m w1")
    from Cons.prems s1 True s2 have eq: "r = r2" "w' = w2" "calls = (k, m) # c2" by auto
    from Cons.IH[OF s2] eq show ?thesis by (simp add: upt_conv_Cons del: upt_Suc)
  next
    case False
    with Cons.prems s1 have "calls = [(k, m)]" "r = r1"
      by (auto split: result.splits option.splits)
    with False show ?thesis by simp
  qed
qed

lemma send_dests_first_error:
  "send_dests k pre ctx m w = (Returns None, w1, calls1) \<Longrightarrow>
   Send d ctx m w1 = (Returns (Some e), w2) \<Longrightarrow>
   send_dests k (pre @ d # post) ctx m w =
     (Returns (Some e), w2, map (\<lambda>i. (i, m)) [k..<Suc (k + length pre)])"
proof (induction pre arbitrary: k w calls1)
  case Nil
  then show ?case by simp
next
  case (Cons p pre)
  obtain r1 w1' where s1: "Send p ctx m w = (r1, w1')" by (cases "Send p ctx m w")
  obtain r2 w2' c2 where s2: "send_dests (Suc k) pre ctx m w1' = (r2, w2', c2)"
    by (cases "send_dests (Suc k) pre ctx m w1'")
  from Cons.prems(1) s1 have r1: "r1 = Returns None"
    by (auto split: result.splits option.splits prod.splits)
  with Cons.prems(1) s1 s2 have "r2 = Returns None" "w2' = w1" by auto
  with s2 have "send_dests (Suc k) pre ctx m w1' = (Returns None, w1, c2)" by simp
  from Cons.IH[OF this Cons.prems(2)] s1 r1 show ?case
    by (simp add: upt_conv_Cons del: upt_Suc)
qed

text \<open>What \<^verbatim>\<open>send\<close> does to the event before the loop.\<close>

lemma send_prepare_event:
  "fst (send_prepare lib m w) =
     m\<lparr>Message := (Message m)
        \<lparr>Timestamp := (if Timestamp (Message m) = 0 then fst (time_Now lib w)
                        else Timestamp (Message m)),
         SentAt := fst (time_Now lib
                     (if Timestamp (Message m) = 0 then snd (time_Now lib w) else w)),
         MessageId := (if MessageId (Message m) = []
                       then fst (uuid_NewRandom lib (snd (time_Now lib
                              (if Timestamp (Message m) = 0 then snd (time_Now lib w) else w))))
                       else MessageId (Message m))\<rparr>\<rparr>"
  by (simp add: send_prepare_def Let_def split: prod.splits)

lemma send_calls_event:
  "send s lib ctx m w = (r, w', calls) \<Longrightarrow> (k, e) \<in> set calls \<Longrightarrow>
     e = fst (send_prepare lib m w)"
proof -
  assume a: "send s lib ctx m w = (r, w', calls)" and b: "(k, e) \<in> set calls"
  obtain m' w0 where p: "send_prepare lib m w = (m', w0)" by (cases "send_prepare lib m w")
  with a have "send_dests 0 (destinations s) ctx m' w0 = (r, w', calls)"
    by (simp add: send_def)
  from send_dests_calls[OF this] have "calls = map (\<lambda>i. (i, m')) [0..<0 + length calls]"
    by blast
  then have "set calls \<subseteq> {c. snd c = m'}"
    by (metis (mono_tags, lifting) imageE list.set_map mem_Collect_eq snd_conv subsetI)
  with b p show ?thesis by auto
qed

text \<open>
  Every event \<^verbatim>\<open>handleBatch\<close> sends carries the write key, the project id and the
  context it was given for the batch.
\<close>

lemma handleBatch_loop_calls:
  "handleBatch_loop s lib ctx writeKey pid bctx ms w = (r, w', calls) \<Longrightarrow>
   (k, e) \<in> set calls \<Longrightarrow>
     WriteKey e = writeKey \<and> ProjectId (Message e) = pid \<and> Context (Message e) = bctx"
proof (induction ms arbitrary: w r w' calls)
  case Nil
  then show ?case by simp
next
  case (Cons m ms)
  define ev where "ev = \<lparr>WriteKey = writeKey, Message = m\<lparr>ProjectId := pid, Context := bctx\<rparr>\<rparr>"
  obtain r1 w1 c1 where s1: "send s lib ctx ev w = (r1, w1, c1)"
    by (cases "send s lib ctx ev w")
  have first: "WriteKey e = writeKey \<and> ProjectId (Message e) = pid \<and> Context (Message e) = bctx"
    if "(k, e) \<in> set c1"
  proof -
    from send_calls_event[OF s1 that] have "e = fst (send_prepare lib ev w)" .
    then show ?thesis by (simp add: send_prepare_event ev_def)
  qed
  show ?case
  proof (cases "r1 = Returns None")
    case True
    obtain r2 w2 c2 where s2: "handleBatch_loop s lib ctx writeKey pid bctx ms w1 = (r2, w2, c2)"
      by (cases "handleBatch_loop s lib ctx writeKey pid bctx ms w1")
    from Cons.prems(1) s1 True s2 have "calls = c1 @ c2"
      by (simp add: ev_def Let_def)
    with Cons.prems(2) have "(k, e) \<in> set c1 \<or> (k, e) \<in> set c2" by simp
    then show ?thesis using first Cons.IH[OF s2] by blast
  next
    case False
    with Cons.prems(1) s1 have "calls = c1"
      by (auto simp: ev_def Let_def split: result.splits option.splits)
    with Cons.prems(2) first show ?thesis by simp
  qed
qed

lemma handleBatch_calls:
  "handleBatch s lib r w = (resp, w', calls) \<Longrightarrow> (k, e) \<in> set calls \<Longrightarrow>
     \<exists>batch. json_DecodeBatch lib (Body r) = Inr batch \<and>
       Context (Message e) = BatchContext batch"
  by (auto simp: handleBatch_def Let_def split: sum.splits option.splits prod.splits if_splits
        dest: handleBatch_loop_calls)

text \<open>
  Every event \<^verbatim>\<open>handleBatch\<close> sends is a message of the batch with the project id and
  the context set, as \<^verbatim>\<open>send\<close> prepares it.
\<close>

lemma handleBatch_loop_events:
  "handleBatch_loop s lib ctx writeKey pid bctx ms w = (r, w', calls) \<Longrightarrow>
   (k, e) \<in> set calls \<Longrightarrow>
     \<exists>m\<in>set ms. \<exists>w0.
       e = fst (send_prepare lib
                 \<lparr>WriteKey = writeKey, Message = m\<lparr>ProjectId := pid, Context := bctx\<rparr>\<rparr> w0)"
proof (induction ms arbitrary: w r w' calls)
  case Nil
  then show ?case by simp
next
  case (Cons m ms)
  define ev where "ev = \<lparr>WriteKey = writeKey, Message = m\<lparr>ProjectId := pid, Context := bctx\<rparr>\<rparr>"
  obtain r1 w1 c1 where s1: "send s lib ctx ev w = (r1, w1, c1)"
    by (cases "send s lib ctx ev w")
  have first: "\<exists>w0. e = fst (send_prepare lib ev w0)" if "(k, e) \<in> set c1"
    using send_calls_event[OF s1 that] by blast
  show ?case
  proof (cases "r1 = Returns None")
    case True
    obtain r2 w2 c2 where s2: "handleBatch_loop s lib ctx writeKey pid bctx ms w1 = (r2, w2, c2)"
      by (cases "handleBatch_loop s lib ctx writeKey pid bctx ms w1")
    from Cons.prems(1) s1 True s2 have "calls = c1 @ c2"
      by (simp add: ev_def Let_def)
    with Cons.prems(2) have "(k, e) \<in> set c1 \<or> (k, e) \<in> set c2" by simp
    then show ?thesis
    proof
      assume "(k, e) \<in> set c1"
      from first[OF this] show ?thesis unfolding ev_def by auto
    next
      assume "(k, e) \<in> set c2"
      from Cons.IH[OF s2 this] show ?thesis by auto
    qed
  next
    case False
    with Cons.prems(1) s1 have "calls = c1"
      by (auto simp: ev_def Let_def split: result.splits option.splits)
    with Cons.prems(2) first show ?thesis unfolding ev_def by auto
  qed
qed


lemma ex_prepare: "send_prepare ex_lib ex_event (100, []) = (ex_sent, (102, []))"
  by (simp add: send_prepare_def ex_lib_def ex_event_def ex_message_def ex_sent_def)


text \<open>
  Claim C5. Every event that \<^verbatim>\<open>send\<close> passes to a destination is the event it was
  given with three fields set: the message id, replaced by a fresh \<^verbatim>\<open>uuid.NewRandom\<close>
  when it was empty; the timestamp, replaced by \<^verbatim>\<open>time.Now\<close> when it was the zero
  time; and \<^verbatim>\<open>SentAt\<close>, always replaced by the next reading of \<^verbatim>\<open>time.Now\<close>, whatever
  the caller supplied. That the identifier is unique is a property of the UUID
  library, which is a parameter here.
\<close>

theorem send_fills_event:
  assumes "send s lib ctx m w = (r, w', calls)" and "(k, e) \<in> set calls"
  shows "(let w1 = (if Timestamp (Message m) = 0 then snd (time_Now lib w) else w);
              w2 = snd (time_Now lib w1);
              ts = (if Timestamp (Message m) = 0 then fst (time_Now lib w)
                    else Timestamp (Message m));
              mid = (if MessageId (Message m) = [] then fst (uuid_NewRandom lib w2)
                     else MessageId (Message m))
          in MessageId (Message e) = mid \<and> Timestamp (Message e) = ts \<and>
             SentAt (Message e) = fst (time_Now lib w1) \<and>
             e = m\<lparr>Message := (Message m)\<lparr>Timestamp := ts, SentAt := fst (time_Now lib w1),
                                            MessageId := mid\<rparr>\<rparr>)"
proof -
  from send_calls_event[OF assms] have "e = fst (send_prepare lib m w)" .
  then show ?thesis by (simp add: send_prepare_event Let_def)
qed

lemma ex_send:
  "send ex_segment ex_lib Background ex_event (100, []) =
     (Returns (Some ex_err), (102, [0, 1]), [(0, ex_sent), (1, ex_sent)])"
  by (simp add: send_def ex_prepare ex_segment_def NewSegment_def logging_dest_def)

theorem send_fills_event_witness:
  "send ex_segment ex_lib Background ex_event (100, []) =
     (Returns (Some ex_err), (102, [0, 1]), [(0, ex_sent), (1, ex_sent)]) \<and>
   (1, ex_sent) \<in> set [(0, ex_sent), (1, ex_sent)] \<and>
   MessageId (Message ex_event) = [] \<and> Timestamp (Message ex_event) = 0 \<and>
   SentAt (Message ex_event) = 7 \<and>
   MessageId (Message ex_sent) = ''uuid'' \<and> Timestamp (Message ex_sent) = 100 \<and>
   SentAt (Message ex_sent) = 101"
proof -
  have h: "(1, ex_sent) \<in> set [(0, ex_sent), (1, ex_sent)]" by simp
  from send_fills_event[OF ex_send h] ex_send h show ?thesis
    by (simp add: Let_def ex_lib_def ex_event_def ex_message_def)
qed

lemma ex_handleBatch:
  "handleBatch ex_segment_ok ex_lib (ex_request\<lparr>Body := b\<rparr>) (100, []) =
     (let c = (if b = ''nil'' then None else Some [''app'' \<mapsto> Str ''web''])
      in (Some \<lparr>Status = 200, Payload = success_json\<rparr>, (104, [0, 1, 0, 1]),
          [(0, ex_dispatched ''u1'' 100 c), (1, ex_dispatched ''u1'' 100 c),
           (0, ex_dispatched ''u2'' 102 c), (1, ex_dispatched ''u2'' 102 c)]))"
  by (simp add: handleBatch_def ex_lib_def ex_request_def ex_batch_def ex_segment_ok_def
        NewSegment_def contextTimeout_def FormValue_def send_def send_prepare_def
        logging_dest_def ex_message_def ex_dispatched_def respond_def StatusOK_def Let_def)

text \<open>
  Claim C7. When the decoded batch carries a shared context \<open>c\<close>, every event that
  \<^verbatim>\<open>handleBatch\<close> passes to a destination has exactly \<open>c\<close> as its context: the context
  of the message itself is overwritten, not merged.
\<close>

theorem handleBatch_shared_context:
  assumes "handleBatch s lib r w = (resp, w', calls)"
    and "json_DecodeBatch lib (Body r) = Inr batch"
    and "BatchContext batch = Some c"
    and "(k, e) \<in> set calls"
  shows "Context (Message e) = Some c"
  using handleBatch_calls[OF assms(1) assms(4)] assms(2) assms(3) by auto

theorem handleBatch_shared_context_witness:
  "handleBatch ex_segment_ok ex_lib (ex_request\<lparr>Body := ''{}''\<rparr>) (100, []) =
     (Some \<lparr>Status = 200, Payload = success_json\<rparr>, (104, [0, 1, 0, 1]),
      [(0, ex_dispatched ''u1'' 100 (Some [''app'' \<mapsto> Str ''web''])),
       (1, ex_dispatched ''u1'' 100 (Some [''app'' \<mapsto> Str ''web''])),
       (0, ex_dispatched ''u2'' 102 (Some [''app'' \<mapsto> Str ''web''])),
       (1, ex_dispatched ''u2'' 102 (Some [''app'' \<mapsto> Str ''web'']))]) \<and>
   json_DecodeBatch ex_lib (Body (ex_request\<lparr>Body := ''{}''\<rparr>)) = Inr ex_batch \<and>
   BatchContext ex_batch = Some [''app'' \<mapsto> Str ''web''] \<and>
   map Context (Messages ex_batch) = [Some [''ip'' \<mapsto> Str ''10.0.0.1''], None] \<and>
   Context (Message (ex_dispatched ''u2'' 102 (Some [''app'' \<mapsto> Str ''web'']))) =
     Some [''app'' \<mapsto> Str ''web'']"
proof -
  let ?c = "Some [''app'' \<mapsto> Str ''web'']"
  let ?calls = "[(0, ex_dispatched ''u1'' 100 ?c), (1, ex_dispatched ''u1'' 100 ?c),
       (0, ex_dispatched ''u2'' 102 ?c), (1, ex_dispatched ''u2'' 102 ?c)]"
  have h1: "handleBatch ex_segment_ok ex_lib (ex_request\<lparr>Body := ''{}''\<rparr>) (100, []) =
     (Some \<lparr>Status = 200, Payload = success_json\<rparr>, (104, [0, 1, 0, 1]), ?calls)"
    by (simp add: ex_handleBatch Let_def)
  have h2: "json_DecodeBatch ex_lib (Body (ex_request\<lparr>Body := ''{}''\<rparr>)) = Inr ex_batch"
    by (simp add: ex_lib_def)
  have h3: "BatchContext ex_batch = Some [''app'' \<mapsto> Str ''web'']"
    by (simp add: ex_batch_def)
  have h4: "(0, ex_dispatched ''u2'' 102 ?c) \<in> set ?calls" by simp
  have h5: "map Context (Messages ex_batch) =
      [Some [''ip'' \<mapsto> Str ''10.0.0.1''], None]"
    by (simp add: ex_batch_def ex_message_def)
  from handleBatch_shared_context[OF h1 h2 h3 h4] h1 h2 h3 h5 show ?thesis by simp
qed

text \<open>
  Claim C9. The assignment of the batch context is unconditional. Every event that
  \<^verbatim>\<open>handleBatch\<close> passes to a destination carries the context of the decoded batch,
  whatever that is: a shared map when the batch has one, and nil when it has none.
  Each such event is a message of the batch in which the project id and the context
  were set before \<^verbatim>\<open>send\<close> prepared it, so the context the message had is not looked
  at, and a context supplied inside a message of the batch is never preserved.
\<close>

theorem handleBatch_context_replaced:
  assumes "handleBatch s lib r w = (resp, w', calls)"
    and "json_DecodeBatch lib (Body r) = Inr batch"
    and "(k, e) \<in> set calls"
  shows "Context (Message e) = BatchContext batch \<and>
         (\<exists>m\<in>set (Messages batch). \<exists>writeKey password w0.
            BasicAuth r = Some (writeKey, password) \<and>
            e = fst (send_prepare lib
                      \<lparr>WriteKey = writeKey,
                       Message = m\<lparr>ProjectId := projectId s writeKey,
                                    Context := BatchContext batch\<rparr>\<rparr> w0))"
proof -
  from assms(1,2,3) obtain writeKey password res where
    auth: "BasicAuth r = Some (writeKey, password)"
    and loop: "handleBatch_loop s lib (contextTimeout lib r) writeKey (projectId s writeKey)
                 (BatchContext batch) (Messages batch) w = (res, w', calls)"
    by (auto simp: handleBatch_def Let_def split: option.splits prod.splits if_splits)
  from handleBatch_loop_events[OF loop assms(3)] obtain m w0 where
    m: "m \<in> set (Messages batch)"
    and e: "e = fst (send_prepare lib
                      \<lparr>WriteKey = writeKey,
                       Message = m\<lparr>ProjectId := projectId s writeKey,
                                    Context := BatchContext batch\<rparr>\<rparr> w0)"
    by blast
  from e have "Context (Message e) = BatchContext batch"
    by (simp add: send_prepare_event)
  with auth m e show ?thesis by blast
qed

theorem handleBatch_context_replaced_witness:
  "handleBatch ex_segment_ok ex_lib (ex_request\<lparr>Body := ''nil''\<rparr>) (100, []) =
     (Some \<lparr>Status = 200, Payload = success_json\<rparr>, (104, [0, 1, 0, 1]),
      [(0, ex_dispatched ''u1'' 100 None), (1, ex_dispatched ''u1'' 100 None),
       (0, ex_dispatched ''u2'' 102 None), (1, ex_dispatched ''u2'' 102 None)]) \<and>
   json_DecodeBatch ex_lib (Body (ex_request\<lparr>Body := ''nil''\<rparr>)) =
     Inr (ex_batch\<lparr>BatchContext := None\<rparr>) \<and>
   (0, ex_dispatched ''u1'' 100 None) \<in>
     set [(0, ex_dispatched ''u1'' 100 None), (1, ex_dispatched ''u1'' 100 None),
          (0, ex_dispatched ''u2'' 102 None), (1, ex_dispatched ''u2'' 102 None)] \<and>
   Context (hd (Messages (ex_batch\<lparr>BatchContext := None\<rparr>))) =
     Some [''ip'' \<mapsto> Str ''10.0.0.1''] \<and>
   Context (Message (ex_dispatched ''u1'' 100 None)) = None \<and>
   json_DecodeBatch ex_lib (Body (ex_request\<lparr>Body := ''{}''\<rparr>)) = Inr ex_batch \<and>
   handleBatch ex_segment_ok ex_lib (ex_request\<lparr>Body := ''{}''\<rparr>) (100, []) =
     (Some \<lparr>Status = 200, Payload = success_json\<rparr>, (104, [0, 1, 0, 1]),
      [(0, ex_dispatched ''u1'' 100 (Some [''app'' \<mapsto> Str ''web''])),
       (1, ex_dispatched ''u1'' 100 (Some [''app'' \<mapsto> Str ''web''])),
       (0, ex_dispatched ''u2'' 102 (Some [''app'' \<mapsto> Str ''web''])),
       (1, ex_dispatched ''u2'' 102 (Some [''app'' \<mapsto> Str ''web'']))]) \<and>
   Context (Message (ex_dispatched ''u2'' 102 (Some [''app'' \<mapsto> Str ''web'']))) =
     BatchContext ex_batch"
proof -
  let ?calls = "[(0, ex_dispatched ''u1'' 100 None), (1, ex_dispatched ''u1'' 100 None),
       (0, ex_dispatched ''u2'' 102 None), (1, ex_dispatched ''u2'' 102 None)]"
  let ?c = "Some [''app'' \<mapsto> Str ''web'']"
  let ?calls2 = "[(0, ex_dispatched ''u1'' 100 ?c), (1, ex_dispatched ''u1'' 100 ?c),
       (0, ex_dispatched ''u2'' 102 ?c), (1, ex_dispatched ''u2'' 102 ?c)]"
  have h1: "handleBatch ex_segment_ok ex_lib (ex_request\<lparr>Body := ''nil''\<rparr>) (100, []) =
     (Some \<lparr>Status = 200, Payload = success_json\<rparr>, (104, [0, 1, 0, 1]), ?calls)"
    by (simp add: ex_handleBatch Let_def)
  have h2: "json_DecodeBatch ex_lib (Body (ex_request\<lparr>Body := ''nil''\<rparr>)) =
     Inr (ex_batch\<lparr>BatchContext := None\<rparr>)"
    by (simp add: ex_lib_def)
  have h3: "(0, ex_dispatched ''u1'' 100 None) \<in> set ?calls" by simp
  have h4: "Context (hd (Messages (ex_batch\<lparr>BatchContext := None\<rparr>))) =
     Some [''ip'' \<mapsto> Str ''10.0.0.1'']"
    by (simp add: ex_batch_def ex_message_def)
  have g1: "handleBatch ex_segment_ok ex_lib (ex_request\<lparr>Body := ''{}''\<rparr>) (100, []) =
     (Some \<lparr>Status = 200, Payload = success_json\<rparr>, (104, [0, 1, 0, 1]), ?calls2)"
    by (simp add: ex_handleBatch Let_def)
  have g2: "json_DecodeBatch ex_lib (Body (ex_request\<lparr>Body := ''{}''\<rparr>)) = Inr ex_batch"
    by (simp add: ex_lib_def)
  have g3: "(0, ex_dispatched ''u2'' 102 ?c) \<in> set ?calls2" by simp
  from handleBatch_context_replaced[OF h1 h2 h3, THEN conjunct1]
  have a: "Context (Message (ex_dispatched ''u1'' 100 None)) = None" by simp
  from handleBatch_context_replaced[OF g1 g2 g3, THEN conjunct1]
  have b: "Context (Message (ex_dispatched ''u2'' 102 ?c)) = BatchContext ex_batch" .
  from h1 h2 h3 h4 a g1 g2 b show ?thesis by simp
qed

text \<open>
  Claim C8. A request whose write key resolves to the empty project id is rejected with
  a client error, no \<^verbatim>\<open>Send\<close> is called and the state is untouched: \<^verbatim>\<open>handleEvent\<close>
  answers 400 for the write key of the decoded event; \<^verbatim>\<open>handleBatch\<close> answers 401 for
  the user of the basic authorisation, and some status between 400 and 499 also when
  the body does not decode or the authorisation is absent.
\<close>

theorem unresolved_project_rejected:
  "(handleEvent_decode lib r = Inr ev \<longrightarrow> projectId s (WriteKey ev) = [] \<longrightarrow>
      handleEvent s lib r w = (Some (http_Error failure_json StatusBadRequest), w, [])) \<and>
   (json_DecodeBatch lib (Body r) = Inr batch \<longrightarrow> BasicAuth r = Some (writeKey, password) \<longrightarrow>
      projectId s writeKey = [] \<longrightarrow>
      handleBatch s lib r w = (Some (http_Error failure_json StatusUnauthorized), w, [])) \<and>
   (projectId s (case BasicAuth r of None \<Rightarrow> [] | Some (u, p) \<Rightarrow> u) = [] \<longrightarrow>
      (\<exists>resp. handleBatch s lib r w = (Some resp, w, []) \<and>
              400 \<le> Status resp \<and> Status resp < 500))"
  by (auto simp: handleEvent_def handleBatch_def http_Error_def Let_def StatusBadRequest_def
        StatusUnauthorized_def split: sum.splits option.splits prod.splits)

theorem unresolved_project_rejected_witness:
  "handleEvent_decode ex_lib (ex_request\<lparr>BasicAuth := Some (''other'', [])\<rparr>) =
     Inr \<lparr>WriteKey = ''other'', Message = ex_message\<rparr> \<and>
   projectId ex_segment (WriteKey \<lparr>WriteKey = ''other'', Message = ex_message\<rparr>) = [] \<and>
   handleEvent ex_segment ex_lib (ex_request\<lparr>BasicAuth := Some (''other'', [])\<rparr>) (100, []) =
     (Some \<lparr>Status = 400, Payload = failure_json\<rparr>, (100, []), []) \<and>
   json_DecodeBatch ex_lib (Body (ex_request\<lparr>BasicAuth := Some (''other'', [])\<rparr>)) =
     Inr ex_batch \<and>
   BasicAuth (ex_request\<lparr>BasicAuth := Some (''other'', [])\<rparr>) = Some (''other'', []) \<and>
   projectId ex_segment ''other'' = [] \<and>
   handleBatch ex_segment ex_lib (ex_request\<lparr>BasicAuth := Some (''other'', [])\<rparr>) (100, []) =
     (Some \<lparr>Status = 401, Payload = failure_json\<rparr>, (100, []), [])"
proof -
  let ?r = "ex_request\<lparr>BasicAuth := Some (''other'', [])\<rparr>"
  let ?ev = "\<lparr>WriteKey = ''other'', Message = ex_message\<rparr>"
  have h1: "handleEvent_decode ex_lib ?r = Inr ?ev"
    by (simp add: handleEvent_decode_def ex_lib_def ex_request_def mux_Vars_def ex_message_def)
  have h2: "projectId ex_segment (WriteKey ?ev) = []"
    by (simp add: ex_segment_def NewSegment_def)
  have h3: "json_DecodeBatch ex_lib (Body ?r) = Inr ex_batch"
    by (simp add: ex_lib_def ex_request_def)
  have h4: "BasicAuth ?r = Some (''other'', [])" by simp
  have h5: "projectId ex_segment ''other'' = []"
    by (simp add: ex_segment_def NewSegment_def)
  from unresolved_project_rejected[of ex_lib ?r ?ev ex_segment "(100, [])" ex_batch "''other''" "[]"]
    h1 h2 h3 h4 h5
  show ?thesis
    by (simp add: http_Error_def StatusBadRequest_def StatusUnauthorized_def)
qed

section \<open>Properties of the supervisor\<close>

text \<open>
  The retry loop is bounded for every destination: it never calls \<^verbatim>\<open>Process\<close> beyond
  attempt \<^verbatim>\<open>backoRetry\<close>, and the sleeps it takes are the delays of the attempts in
  order, one after each call but possibly the last.
\<close>

lemma Run_loop_bounds:
  "Run_loop s lib dest ctx i err w = (r, w', sleeps, calls) \<Longrightarrow>
     int i + int calls \<le> max (int i) (backoRetry s) \<and>
     sleeps = map (backo s) [i..<i + length sleeps] \<and>
     length sleeps \<le> calls \<and> calls \<le> Suc (length sleeps)"
proof (induction s lib dest ctx i err w arbitrary: r w' sleeps calls rule: Run_loop.induct)
  case (1 s lib dest ctx i err w)
  show ?case
  proof (cases "int i < backoRetry s")
    case False
    with "1.prems" show ?thesis by (simp add: Run_loop.simps)
  next
    case True
    obtain r1 w1 where p: "Process dest ctx w = (r1, w1)" by (cases "Process dest ctx w")
    show ?thesis
    proof (cases "\<exists>e. r1 = Returns (Some e)")
      case False
      with "1.prems" True p have "sleeps = []" "calls = 1"
        by (auto simp: Run_loop.simps split: result.splits option.splits)
      with True show ?thesis by simp
    next
      case True
      then obtain e where e: "r1 = Returns (Some e)" by blast
      obtain r2 w2 sl2 c2 where
        rec: "Run_loop s lib dest ctx (Suc i) (Some e) (time_Sleep lib (backo s i) w1) = (r2, w2, sl2, c2)"
        by (cases "Run_loop s lib dest ctx (Suc i) (Some e) (time_Sleep lib (backo s i) w1)")
      from "1.prems" \<open>int i < backoRetry s\<close> p e rec
      have eq: "sleeps = backo s i # sl2" "calls = Suc c2"
        by (simp_all add: Run_loop.simps)
      from "1.IH"[OF \<open>int i < backoRetry s\<close> p[symmetric] _ _ rec] e
      have ih: "int (Suc i) + int c2 \<le> max (int (Suc i)) (backoRetry s) \<and>
        sl2 = map (backo s) [Suc i..<Suc i + length sl2] \<and> length sl2 \<le> c2 \<and> c2 \<le> Suc (length sl2)"
        by simp
      with eq \<open>int i < backoRetry s\<close> show ?thesis
        by (simp add: upt_conv_Cons del: upt_Suc)
    qed
  qed
qed

text \<open>
  A run of failed attempts. Let \<open>ws j\<close> be the state in which attempt \<open>j\<close> is made, \<open>es j\<close>
  the error it returns and \<open>ps j\<close> the state it leaves, the next attempt being made
  after a sleep of \<^verbatim>\<open>backo.Duration(j)\<close>. Then the loop started at attempt \<open>i\<close> is the
  loop started at attempt \<open>k\<close>, with the sleeps of the attempts between and their
  number of calls added.
\<close>

lemma Run_loop_failures:
  "\<forall>j. i \<le> j \<and> j < k \<longrightarrow>
       Process dest ctx (ws j) = (Returns (Some (es j)), ps j) \<and>
       ws (Suc j) = time_Sleep lib (backo s j) (ps j) \<Longrightarrow>
   n = k - i \<Longrightarrow> i \<le> k \<Longrightarrow> int k \<le> backoRetry s \<Longrightarrow>
   Run_loop s lib dest ctx i err (ws i) =
     (case Run_loop s lib dest ctx k (if i < k then Some (es (k - 1)) else err) (ws k) of
        (r, w', sleeps, calls) \<Rightarrow> (r, w', map (backo s) [i..<k] @ sleeps, (k - i) + calls))"
proof (induction n arbitrary: i err)
  case 0
  then have "i = k" by simp
  then show ?case by (simp split: prod.splits)
next
  case (Suc n)
  then have lt: "i < k" and bound: "int i < backoRetry s" by linarith+
  from Suc.prems(1) lt have p: "Process dest ctx (ws i) = (Returns (Some (es i)), ps i)"
    and nxt: "ws (Suc i) = time_Sleep lib (backo s i) (ps i)"
    by auto
  have fails': "\<forall>j. Suc i \<le> j \<and> j < k \<longrightarrow>
       Process dest ctx (ws j) = (Returns (Some (es j)), ps j) \<and>
       ws (Suc j) = time_Sleep lib (backo s j) (ps j)"
    using Suc.prems(1) by auto
  have last: "(if Suc i < k then Some (es (k - 1)) else Some (es i)) = Some (es (k - 1))"
  proof (cases "Suc i < k")
    case True
    then show ?thesis by simp
  next
    case False
    with lt have "k = Suc i" by linarith
    then show ?thesis by simp
  qed
  from Suc.IH[OF fails', of "Some (es i)"] Suc.prems lt
  have ih: "Run_loop s lib dest ctx (Suc i) (Some (es i)) (ws (Suc i)) =
     (case Run_loop s lib dest ctx k (Some (es (k - 1))) (ws k) of
        (r, w', sleeps, calls) \<Rightarrow>
          (r, w', map (backo s) [Suc i..<k] @ sleeps, (k - Suc i) + calls))"
    by (simp add: last)
  have suc: "Suc (k - Suc i) = k - i" using lt by simp
  show ?case
    using bound p nxt ih lt suc
    by (subst Run_loop.simps) (simp add: upt_conv_Cons split: prod.splits del: upt_Suc)
qed


text \<open>
  Claim C4, as the code has it. Take any destination and any run of the goroutine of
  the retrying \<^verbatim>\<open>Run\<close> in which the attempts \<open>0, \<dots>, k - 1\<close> return errors (\<open>ws\<close>, \<open>es\<close>
  and \<open>ps\<close> as above); every run is of this kind, for the \<open>k\<close> of its first attempt
  that does not return an error, or for the bound. After each failed attempt \<open>j\<close> the
  goroutine has slept \<^verbatim>\<open>backo.Duration(j)\<close> and made the next attempt, as long as
  fewer than \<^verbatim>\<open>backoRetry\<close> attempts were made (10 for a \<^verbatim>\<open>NewSegment\<close>, with the schedule
  of \<^verbatim>\<open>backo.DefaultBacko\<close>, a library outside the repository). When attempt \<open>k\<close>
  returns nil the goroutine ends there, with no further sleep or call and without
  \<^verbatim>\<open>Logger.Fatal\<close>; when it blocks or panics, so does the goroutine. When all
  \<^verbatim>\<open>backoRetry\<close> attempts have failed, the goroutine hands the error of the last one
  to \<^verbatim>\<open>Logger.Fatal\<close>, which ends the process. With a bound of zero or less no attempt
  is made. The goroutine of the other \<^verbatim>\<open>Run\<close> calls \<^verbatim>\<open>Process\<close> once and sends what it
  returns on the channel \<^verbatim>\<open>done\<close>.
\<close>

theorem Run_retries_then_fatal:
  assumes start: "ws 0 = w"
    and fails: "\<forall>j<k. Process dest ctx (ws j) = (Returns (Some (es j)), ps j) \<and>
                     ws (Suc j) = time_Sleep lib (backo s j) (ps j)"
  shows "(int k < backoRetry s \<longrightarrow> Process dest ctx (ws k) = (Returns None, w') \<longrightarrow>
            Run_goroutine s lib dest ctx w =
              (GoroutineEnds, w', map (backo s) [0..<k], Suc k)) \<and>
         (int k < backoRetry s \<longrightarrow> Process dest ctx (ws k) = (Blocks, w') \<longrightarrow>
            Run_goroutine s lib dest ctx w =
              (ProcessBlocks, w', map (backo s) [0..<k], Suc k)) \<and>
         (int k < backoRetry s \<longrightarrow> Process dest ctx (ws k) = (Panics, w') \<longrightarrow>
            Run_goroutine s lib dest ctx w =
              (ProcessPanics, w', map (backo s) [0..<k], Suc k)) \<and>
         (0 < k \<longrightarrow> int k = backoRetry s \<longrightarrow>
            Run_goroutine s lib dest ctx w =
              (LoggerFatal (es (k - 1)), ws k, map (backo s) [0..<k], k)) \<and>
         (backoRetry s \<le> 0 \<longrightarrow> Run_goroutine s lib dest ctx w = (GoroutineEnds, w, [], 0)) \<and>
         backoRetry (NewSegment lib pid dests) = 10 \<and>
         backo (NewSegment lib pid dests) = backo_DefaultBacko lib \<and>
         (Process dest ctx w = (Returns err, w'') \<longrightarrow>
            Run_done_goroutine dest ctx w = (Some err, w'', 1))"
proof -
  have fails': "\<forall>j. 0 \<le> j \<and> j < k \<longrightarrow>
       Process dest ctx (ws j) = (Returns (Some (es j)), ps j) \<and>
       ws (Suc j) = time_Sleep lib (backo s j) (ps j)"
    using fails by simp
  have run: "Run_loop s lib dest ctx 0 None w =
     (case Run_loop s lib dest ctx k (if 0 < k then Some (es (k - 1)) else None) (ws k) of
        (r, w', sleeps, calls) \<Rightarrow> (r, w', map (backo s) [0..<k] @ sleeps, k + calls))"
    if "int k \<le> backoRetry s"
    using Run_loop_failures[OF fails' refl _ that, of None] start by simp
  have at_k: "Run_loop s lib dest ctx k e (ws k) = (r, v, [], 1)"
    if "int k < backoRetry s" and "Process dest ctx (ws k) = (r, v)"
      and "r = Returns None \<or> r = Blocks \<or> r = Panics" for e r v
    using that by (subst Run_loop.simps) auto
  have a: "Run_goroutine s lib dest ctx w = (GoroutineEnds, w', map (backo s) [0..<k], Suc k)"
    if "int k < backoRetry s" "Process dest ctx (ws k) = (Returns None, w')"
    using run at_k[OF that, of "if 0 < k then Some (es (k - 1)) else None"] that
    by (simp add: Run_goroutine_def)
  have b: "Run_goroutine s lib dest ctx w = (ProcessBlocks, w', map (backo s) [0..<k], Suc k)"
    if "int k < backoRetry s" "Process dest ctx (ws k) = (Blocks, w')"
    using run at_k[OF that, of "if 0 < k then Some (es (k - 1)) else None"] that
    by (simp add: Run_goroutine_def)
  have c: "Run_goroutine s lib dest ctx w = (ProcessPanics, w', map (backo s) [0..<k], Suc k)"
    if "int k < backoRetry s" "Process dest ctx (ws k) = (Panics, w')"
    using run at_k[OF that, of "if 0 < k then Some (es (k - 1)) else None"] that
    by (simp add: Run_goroutine_def)
  have d: "Run_goroutine s lib dest ctx w =
      (LoggerFatal (es (k - 1)), ws k, map (backo s) [0..<k], k)"
    if "0 < k" "int k = backoRetry s"
  proof -
    from that have "Run_loop s lib dest ctx k (Some (es (k - 1))) (ws k) =
        (Returns (Some (es (k - 1))), ws k, [], 0)"
      by (subst Run_loop.simps) simp
    with run that show ?thesis by (simp add: Run_goroutine_def)
  qed
  have e: "Run_goroutine s lib dest ctx w = (GoroutineEnds, w, [], 0)" if "backoRetry s \<le> 0"
  proof -
    from that have "Run_loop s lib dest ctx 0 None w = (Returns None, w, [], 0)"
      by (subst Run_loop.simps) simp
    then show ?thesis by (simp add: Run_goroutine_def)
  qed
  have f: "Run_done_goroutine dest ctx w = (Some err, w'', 1)"
    if "Process dest ctx w = (Returns err, w'')"
    using that by (simp add: Run_done_goroutine_def)
  from a b c d e f show ?thesis by (simp add: NewSegment_def)
qed


text \<open>
  The example: a destination that always fails, and one that fails twice and then
  succeeds.
\<close>

lemma ex_backo:
  "backo ex_segment 0 = 100000000" "backo ex_segment (Suc 0) = 200000000"
  by (simp_all add: ex_segment_def NewSegment_def ex_lib_def Millisecond_def Second_def)

lemma ex_Run:
  "Run_goroutine ex_segment ex_lib (logging_dest 1 (Returns (Some ex_err))) Background (100, []) =
     (LoggerFatal ex_err, (42700000100, [1, 1, 1, 1, 1, 1, 1, 1, 1, 1]),
      [100000000, 200000000, 400000000, 800000000, 1600000000, 3200000000, 6400000000,
       10000000000, 10000000000, 10000000000], 10)"
  by (simp add: Run_goroutine_def Run_loop.simps ex_segment_def NewSegment_def ex_lib_def
        logging_dest_def Millisecond_def Second_def)

lemma ex_Run_done:
  "Run_done_goroutine (logging_dest 1 (Returns (Some ex_err))) Background (100, []) =
     (Some (Some ex_err), (100, [1]), 1)"
  by (simp add: Run_done_goroutine_def logging_dest_def)

theorem Run_retries_then_fatal_witness:
  "(\<lambda>j. if j = 0 then (100, []) else if j = 1 then (100000100, [7]) else (300000100, [7, 7])) 0 =
     ((100, []) :: world) \<and>
   Process (flaky_dest 7 2) Background (100, []) = (Returns (Some ex_err), (100, [7])) \<and>
   time_Sleep ex_lib (backo ex_segment 0) (100, [7]) = (100000100, [7]) \<and>
   Process (flaky_dest 7 2) Background (100000100, [7]) =
     (Returns (Some ex_err), (100000100, [7, 7])) \<and>
   time_Sleep ex_lib (backo ex_segment 1) (100000100, [7, 7]) = (300000100, [7, 7]) \<and>
   int 2 < backoRetry ex_segment \<and>
   Process (flaky_dest 7 2) Background (300000100, [7, 7]) =
     (Returns None, (300000100, [7, 7, 7])) \<and>
   Run_goroutine ex_segment ex_lib (flaky_dest 7 2) Background (100, []) =
     (GoroutineEnds, (300000100, [7, 7, 7]), [100000000, 200000000], 3) \<and>
   int 2 = backoRetry (ex_segment\<lparr>backoRetry := 2\<rparr>) \<and>
   Run_goroutine (ex_segment\<lparr>backoRetry := 2\<rparr>) ex_lib (flaky_dest 7 2) Background (100, []) =
     (LoggerFatal ex_err, (300000100, [7, 7]), [100000000, 200000000], 2) \<and>
   Run_done_goroutine (flaky_dest 7 2) Background (100, []) =
     (Some (Some ex_err), (100, [7]), 1)"
proof -
  let ?ws = "\<lambda>j::nat. if j = 0 then (100, []) else if j = 1 then (100000100, [7])
                      else ((300000100, [7, 7]) :: world)"
  let ?ps = "\<lambda>j::nat. if j = 0 then (100, [7]) else ((100000100, [7, 7]) :: world)"
  let ?es = "\<lambda>j::nat. ex_err"
  let ?s2 = "ex_segment\<lparr>backoRetry := 2\<rparr>"
  have p0: "Process (flaky_dest 7 2) Background (100, []) = (Returns (Some ex_err), (100, [7]))"
    and p1: "Process (flaky_dest 7 2) Background (100000100, [7]) =
      (Returns (Some ex_err), (100000100, [7, 7]))"
    and p2: "Process (flaky_dest 7 2) Background (300000100, [7, 7]) =
      (Returns None, (300000100, [7, 7, 7]))"
    by (simp_all add: flaky_dest_def)
  have s0: "time_Sleep ex_lib (backo ex_segment 0) (100, [7]) = (100000100, [7])"
    and s1: "time_Sleep ex_lib (backo ex_segment 1) (100000100, [7, 7]) = (300000100, [7, 7])"
    using ex_backo by (simp_all add: ex_lib_def)
  have start: "?ws 0 = (100, [])" by simp
  have fails: "\<forall>j<2. Process (flaky_dest 7 2) Background (?ws j) = (Returns (Some (?es j)), ?ps j) \<and>
                     ?ws (Suc j) = time_Sleep ex_lib (backo ex_segment j) (?ps j)"
    using p0 p1 s0 s1 by (simp add: less_Suc_eq numeral_2_eq_2)
  have fails2: "\<forall>j<2. Process (flaky_dest 7 2) Background (?ws j) = (Returns (Some (?es j)), ?ps j) \<and>
                     ?ws (Suc j) = time_Sleep ex_lib (backo ?s2 j) (?ps j)"
    using fails by (simp add: ex_segment_def NewSegment_def)
  have b1: "int 2 < backoRetry ex_segment" by (simp add: ex_segment_def NewSegment_def)
  have b2: "int 2 = backoRetry ?s2" by simp
  have w2: "?ws 2 = (300000100, [7, 7])" by simp
  note T = Run_retries_then_fatal[where ws = ?ws and es = ?es and ps = ?ps and k = 2
      and dest = "flaky_dest 7 2" and ctx = Background and lib = ex_lib, OF start]
  from T[where s = ex_segment, OF fails, THEN conjunct1, rule_format, OF b1] p2
  have a: "Run_goroutine ex_segment ex_lib (flaky_dest 7 2) Background (100, []) =
     (GoroutineEnds, (300000100, [7, 7, 7]), map (backo ex_segment) [0..<2], Suc 2)"
    by simp
  from T[where s = ?s2, OF fails2, THEN conjunct2, THEN conjunct2, THEN conjunct2,
      THEN conjunct1, rule_format, OF _ b2]
  have b: "Run_goroutine ?s2 ex_lib (flaky_dest 7 2) Background (100, []) =
     (LoggerFatal ex_err, (300000100, [7, 7]), map (backo ?s2) [0..<2], 2)"
    by simp
  have c: "Run_done_goroutine (flaky_dest 7 2) Background (100, []) =
     (Some (Some ex_err), (100, [7]), 1)"
    by (simp add: Run_done_goroutine_def flaky_dest_def)
  have m1: "map (backo ex_segment) [0..<2] = [100000000, 200000000]"
    and m2: "map (backo ?s2) [0..<2] = [100000000, 200000000]"
    using ex_backo by (simp_all add: numeral_2_eq_2 ex_segment_def NewSegment_def)
  from a b c m1 m2 p0 p1 p2 s0 s1 b1 b2 show ?thesis by simp
qed

text \<open>
  Claim C4 as stated fails on both variants. With a destination whose \<^verbatim>\<open>Process\<close>
  always fails, the retrying goroutine ends in \<^verbatim>\<open>Logger.Fatal\<close> after its ten calls:
  the process is terminated, the error is not handed to the caller. The other
  goroutine does hand the error to the caller, after a single call and no retry.
\<close>

theorem Run_reports_after_retries_counterexample:
  "fst (Run_goroutine ex_segment ex_lib (logging_dest 1 (Returns (Some ex_err))) Background
          (100, [])) = LoggerFatal ex_err \<and>
   snd (snd (Run_done_goroutine (logging_dest 1 (Returns (Some ex_err))) Background (100, []))) = 1"
  using ex_Run ex_Run_done by simp

section \<open>Properties of the batching destination\<close>





text \<open>
  The loop keeps its invariant: the array has the length it was made with and the index
  stays below the capacity.
\<close>

lemma Process_step_invariant:
  assumes "Process_step json_Marshal d ev records i st = (Inr (records', i'), st')"
    and "length records = nat (size_d d)" and "int i < size_d d"
  shows "length records' = nat (size_d d) \<and> int i' < size_d d"
  using assms
  by (auto simp: Process_step_def split: selected.splits sum.splits if_splits prod.splits
        result.splits option.splits)




lemma ex_NewDelivery: "NewDelivery (\<lambda>c. ex_firehose) ex_config = Some ex_delivery"
  by (simp add: NewDelivery_def ex_config_def ex_delivery_def Second_def)











text \<open>
  Claim C10. A \<^verbatim>\<open>Delivery\<close> made by \<^verbatim>\<open>NewDelivery\<close> has a nil channel until \<^verbatim>\<open>Process\<close>
  makes it. With a nil channel \<^verbatim>\<open>Delivery.Send\<close> returns the error "Delivery
  destination not ready" at once, whatever the context and the choice of the
  \<^verbatim>\<open>select\<close>: it never blocks, and the \<^verbatim>\<open>Delivery\<close> is unchanged. When such a \<^verbatim>\<open>Delivery\<close>
  is a destination of the dispatcher and those before it have returned nil, \<^verbatim>\<open>send\<close>
  returns that error and calls no destination after it.
\<close>

theorem Delivery_Send_not_ready:
  "(NewDelivery firehose_New config = Some d0 \<longrightarrow> messages d0 = None) \<and>
   (messages d = None \<longrightarrow>
      Delivery_Send ctx_Err pick d ctx message =
        (Returns (Some (Errorf ''Delivery destination not ready, check stream %q exists at %s''
                    [ArgStr (streamName d), ArgStr (Endpoint (fh d))])), d)) \<and>
   (\<forall>(dl :: ('v, SegmentEvent) Delivery) (s :: 'u Segment) lib m w m' w0 pre dest post w1
       calls1 put.
      messages dl = None \<longrightarrow>
      send_prepare lib m w = (m', w0) \<longrightarrow>
      destinations s = pre @ dest # post \<longrightarrow>
      send_dests 0 pre c m' w0 = (Returns None, w1, calls1) \<longrightarrow>
      Send dest c m' w1 = (case Delivery_Send obs choice dl c m' of (r, dl') \<Rightarrow> (r, put dl' w1)) \<longrightarrow>
        send s lib c m w =
          (Returns (Some (Errorf ''Delivery destination not ready, check stream %q exists at %s''
                      [ArgStr (streamName dl), ArgStr (Endpoint (fh dl))])),
           put dl w1, map (\<lambda>i. (i, m')) [0..<Suc (length pre)]))"
proof (intro conjI allI impI)
  assume "NewDelivery firehose_New config = Some d0"
  then show "messages d0 = None"
    by (auto simp: NewDelivery_def Let_def split: if_splits)
next
  assume "messages d = None"
  then show "Delivery_Send ctx_Err pick d ctx message =
        (Returns (Some (Errorf ''Delivery destination not ready, check stream %q exists at %s''
                    [ArgStr (streamName d), ArgStr (Endpoint (fh d))])), d)"
    by (simp add: Delivery_Send_def)
next
  fix dl :: "('v, SegmentEvent) Delivery" and s :: "'u Segment"
    and lib m w m' w0 pre dest post w1 calls1 put
  assume nil: "messages dl = None" and prep: "send_prepare lib m w = (m', w0)"
    and dec: "destinations s = pre @ dest # post"
    and ok: "send_dests 0 pre c m' w0 = (Returns None, w1, calls1)"
    and dest: "Send dest c m' w1 =
      (case Delivery_Send obs choice dl c m' of (r, dl') \<Rightarrow> (r, put dl' w1))"
  let ?e = "Errorf ''Delivery destination not ready, check stream %q exists at %s''
                      [ArgStr (streamName dl), ArgStr (Endpoint (fh dl))]"
  from nil dest have "Send dest c m' w1 = (Returns (Some ?e), put dl w1)"
    by (simp add: Delivery_Send_def)
  from send_dests_first_error[OF ok this, of post] prep dec
  show "send s lib c m w = (Returns (Some ?e), put dl w1, map (\<lambda>i. (i, m')) [0..<Suc (length pre)])"
    by (simp add: send_def)
qed

theorem Delivery_Send_not_ready_witness:
  "NewDelivery (\<lambda>c. ex_firehose) ex_config = Some ex_delivery \<and>
   messages ex_delivery = None \<and>
   Delivery_Send (\<lambda>c. None) True ex_delivery Background (ex_user ''a'') =
     (Returns (Some ex_not_ready), ex_delivery) \<and>
   send (NewSegment ex_fixed_lib (\<lambda>k. ''project'') [ex_delivery_dest, ex_other_dest])
     ex_fixed_lib Background (ex_user ''a'') ex_delivery =
     (Returns (Some ex_not_ready), ex_delivery,
      [(0, \<lparr>WriteKey = ''key'',
            Message = ex_message\<lparr>UserId := ''a'', Timestamp := 100, SentAt := 100,
                        MessageId := ''uuid''\<rparr>\<rparr>)])"
proof -
  let ?s = "NewSegment ex_fixed_lib (\<lambda>k. ''project'') [ex_delivery_dest, ex_other_dest]"
  let ?m' = "\<lparr>WriteKey = ''key'',
            Message = ex_message\<lparr>UserId := ''a'', Timestamp := 100, SentAt := 100,
                        MessageId := ''uuid''\<rparr>\<rparr>"
  have h1: "messages ex_delivery = None" by (simp add: ex_delivery_def)
  have h2: "send_prepare ex_fixed_lib (ex_user ''a'') ex_delivery = (?m', ex_delivery)"
    by (simp add: send_prepare_def ex_fixed_lib_def ex_user_def ex_message_def)
  have h3: "destinations ?s = [] @ ex_delivery_dest # [ex_other_dest]"
    by (simp add: NewSegment_def)
  have h4: "send_dests 0 [] Background ?m' ex_delivery = (Returns None, ex_delivery, [])"
    by simp
  have h5: "Send ex_delivery_dest Background ?m' ex_delivery =
      (case Delivery_Send (\<lambda>c. None) True ex_delivery Background ?m' of
         (r, dl') \<Rightarrow> (r, (\<lambda>a b. a) dl' ex_delivery))"
    by (simp add: ex_delivery_dest_def split: prod.splits)
  have e: "Errorf ''Delivery destination not ready, check stream %q exists at %s''
        [ArgStr (streamName ex_delivery), ArgStr (Endpoint (fh ex_delivery))] = ex_not_ready"
    by (simp add: ex_not_ready_def ex_delivery_def ex_firehose_def)
  note T = Delivery_Send_not_ready[of "\<lambda>c. ex_firehose" ex_config ex_delivery ex_delivery
      "\<lambda>c. None" True Background "ex_user ''a''" Background "\<lambda>c. None" True]
  from T[THEN conjunct2, THEN conjunct1, rule_format, OF h1]
  have a: "Delivery_Send (\<lambda>c. None) True ex_delivery Background (ex_user ''a'') =
     (Returns (Some ex_not_ready), ex_delivery)"
    by (simp add: e)
  from T[THEN conjunct2, THEN conjunct2, rule_format, OF h1 h2 h3 h4 h5]
  have b: "send ?s ex_fixed_lib Background (ex_user ''a'') ex_delivery =
       (Returns (Some ex_not_ready), ex_delivery, [(0, ?m')])"
    by (simp add: e)
  from ex_NewDelivery h1 a b show ?thesis by simp
qed

section \<open>Properties of the dropping destination\<close>

text \<open>
  Claim C3, as the code has it. \<^verbatim>\<open>Forwarder.Send\<close> returns nil for every forwarder,
  context and message, and never blocks. The channel that \<^verbatim>\<open>NewForwarder\<close> makes has
  capacity 0: there is no cell to hold a message. On such a channel the send succeeds
  exactly when the run loop is blocked in its receive, and the message is handed to
  it; otherwise the skipped counter goes up by one and the forwarder is unchanged. So
  of two sends in a row, with the run loop waiting at the first, the first message is
  handed over and the second is skipped; with the run loop not waiting, both are
  skipped.
\<close>

theorem Forwarder_Send_drops:
  "fst (Forwarder_Send f ctx message skipped) = Returns None \<and>
   (NewForwarder ep = Some f0 \<longrightarrow> messages_f f0 = \<lparr>cap = 0, buf = [], receiver = Elsewhere\<rparr>) \<and>
   (cap (messages_f f) = 0 \<longrightarrow>
      Forwarder_Send f ctx message skipped =
        (if receiver (messages_f f) = Waiting
         then (Returns None, f\<lparr>messages_f := (messages_f f)\<lparr>receiver := Handed message\<rparr>\<rparr>, skipped)
         else (Returns None, f, skipped + 1)) \<and>
      (case Forwarder_Send f ctx message skipped of
         (r1, f1, k1) \<Rightarrow>
           (case Forwarder_Send f1 ctx2 message2 k1 of
              (r2, f2, k2) \<Rightarrow>
                r1 = Returns None \<and> r2 = Returns None \<and>
                (if receiver (messages_f f) = Waiting
                 then f2 = f\<lparr>messages_f := (messages_f f)\<lparr>receiver := Handed message\<rparr>\<rparr> \<and>
                      k2 = skipped + 1
                 else f2 = f \<and> k2 = skipped + 2))))"
  by (auto simp: Forwarder_Send_def NewForwarder_def make_chan_def chan_ready_def chan_put_def
        split: if_splits)

lemma ex_forwarder_waiting_chan:
  "ex_forwarder_waiting =
     \<lparr>endpoint = ''http://collector'', messages_f = \<lparr>cap = 0, buf = [], receiver = Waiting\<rparr>\<rparr>"
  by (simp add: ex_forwarder_waiting_def ex_forwarder_def chan_recv_def make_chan_def)

theorem Forwarder_Send_drops_witness:
  "NewForwarder ''http://collector'' = Some ex_forwarder \<and>
   cap (messages_f ex_forwarder_waiting) = 0 \<and>
   receiver (messages_f ex_forwarder_waiting) = Waiting \<and>
   Forwarder_Send ex_forwarder_waiting Background (ex_user ''a'') 0 =
     (Returns None,
      \<lparr>endpoint = ''http://collector'',
       messages_f = \<lparr>cap = 0, buf = [], receiver = Handed (ex_user ''a'')\<rparr>\<rparr>, 0) \<and>
   Forwarder_Send
     \<lparr>endpoint = ''http://collector'',
      messages_f = \<lparr>cap = 0, buf = [], receiver = Handed (ex_user ''a'')\<rparr>\<rparr>
     Background (ex_user ''b'') 0 =
     (Returns None,
      \<lparr>endpoint = ''http://collector'',
       messages_f = \<lparr>cap = 0, buf = [], receiver = Handed (ex_user ''a'')\<rparr>\<rparr>, 1)"
proof -
  have h0: "NewForwarder ''http://collector'' = Some ex_forwarder"
    by (simp add: NewForwarder_def ex_forwarder_def)
  have h1: "cap (messages_f ex_forwarder_waiting) = 0"
    and h2: "receiver (messages_f ex_forwarder_waiting) = Waiting"
    by (simp_all add: ex_forwarder_waiting_chan)
  let ?f1 = "\<lparr>endpoint = ''http://collector'',
       messages_f = \<lparr>cap = 0, buf = [], receiver = Handed (ex_user ''a'')\<rparr>\<rparr>"
  have h3: "cap (messages_f ?f1) = 0" by simp
  note T = Forwarder_Send_drops[of ex_forwarder_waiting Background "ex_user ''a''" 0]
  from T[THEN conjunct2, THEN conjunct2, rule_format, OF h1, THEN conjunct1] h2
  have a: "Forwarder_Send ex_forwarder_waiting Background (ex_user ''a'') 0 = (Returns None, ?f1, 0)"
    by (simp add: ex_forwarder_waiting_chan)
  have b: "Forwarder_Send ?f1 Background (ex_user ''b'') 0 = (Returns None, ?f1, 1)"
    by (simp add: Forwarder_Send_def chan_ready_def)
  from h0 h1 h2 a b show ?thesis by simp
qed

text \<open>
  Claim C3 as stated fails: on a forwarder fresh from \<^verbatim>\<open>NewForwarder\<close>, whose run loop
  is not waiting in its receive, two sends in a row are both counted as skipped and
  neither message is kept.
\<close>

theorem Forwarder_two_events_counterexample:
  "NewForwarder ''http://collector'' = Some ex_forwarder \<and>
   Forwarder_Send ex_forwarder Background (ex_user ''a'') 0 = (Returns None, ex_forwarder, 1) \<and>
   Forwarder_Send ex_forwarder Background (ex_user ''b'') 1 = (Returns None, ex_forwarder, 2) \<and>
   messages_f ex_forwarder = \<lparr>cap = 0, buf = [], receiver = Elsewhere\<rparr>"
  by (simp add: NewForwarder_def ex_forwarder_def Forwarder_Send_def make_chan_def chan_ready_def)

end
